theory Spec2Isabelle
  imports Main "HOL-Library.Sublist"
begin

section \<open>Values that cross the API Client boundary\<close>

text \<open>
  The resource clients hand JavaScript values to the API Client: strings, numbers, object
  literals, arrays, \<open>null\<close>. Numbers are never inspected by the code under study, they are
  passed on as they are; they are modelled as integers.
\<close>

datatype jsvalue =
    JUndefined
  | JNull
  | JBool bool
  | JNum int
  | JStr string
  | JArr "jsvalue list"
  | JObj "(string \<times> jsvalue) list"

text \<open>
  The second argument of every API Client entry point is either \<open>null\<close> or an object
  literal \<open>{ params: { ... } }\<close>. The entries of \<open>params\<close> are kept in the order of the
  object literal.
\<close>

record options =
  params :: "(string \<times> jsvalue) list"

section \<open>The API Client as the resource clients see it\<close>

text \<open>
  \<open>import { LockstepApi } from "../APIClient"\<close>: the resource clients use five entry
  points of the class. The type \<open>'r\<close> stands for what an entry point returns (in the
  source a \<open>Promise<T | ErrorResult>\<close>); the resource clients never look into it.
\<close>

record 'r LockstepApi =
  request :: "string \<Rightarrow> string \<Rightarrow> options option \<Rightarrow> jsvalue \<Rightarrow> 'r"
  get :: "string \<Rightarrow> options option \<Rightarrow> 'r"
  post :: "string \<Rightarrow> options option \<Rightarrow> jsvalue \<Rightarrow> 'r"
  patch :: "string \<Rightarrow> options option \<Rightarrow> jsvalue \<Rightarrow> 'r"
  delete :: "string \<Rightarrow> options option \<Rightarrow> 'r"

text \<open>One invocation of an entry point, as data.\<close>

datatype api_call =
    Request string string "options option" jsvalue
  | Get string "options option"
  | Post string "options option" jsvalue
  | Patch string "options option" jsvalue
  | Delete string "options option"

fun perform :: "'r LockstepApi \<Rightarrow> api_call \<Rightarrow> 'r" where
  "perform c (Request m p opts b) = request c m p opts b"
| "perform c (Get p opts) = get c p opts"
| "perform c (Post p opts b) = post c p opts b"
| "perform c (Patch p opts b) = patch c p opts b"
| "perform c (Delete p opts) = delete c p opts"

text \<open>The client that answers every invocation with the invocation itself.\<close>

definition probe :: "api_call LockstepApi" where
  "probe = \<lparr>request = Request, get = Get, post = Post, patch = Patch, delete = Delete\<rparr>"

fun call_path :: "api_call \<Rightarrow> string" where
  "call_path (Request m p opts b) = p"
| "call_path (Get p opts) = p"
| "call_path (Post p opts b) = p"
| "call_path (Patch p opts b) = p"
| "call_path (Delete p opts) = p"


section \<open>EmailsClient\<close>

record 'r EmailsClient =
  client :: "'r LockstepApi"

definition EmailsClient_new :: "'r LockstepApi \<Rightarrow> 'r EmailsClient" where
  "EmailsClient_new c = \<lparr>client = c\<rparr>"

definition retrieveEmail :: "'r EmailsClient \<Rightarrow> string \<Rightarrow> string \<Rightarrow> 'r" where
  "retrieveEmail this id' include =
     (let url = ''/api/v1/Emails/'' @ id';
          options = \<lparr>params = [(''include'', JStr include)]\<rparr>
      in get (EmailsClient.client this) url (Some options))"

definition updateEmail :: "'r EmailsClient \<Rightarrow> string \<Rightarrow> jsvalue \<Rightarrow> 'r" where
  "updateEmail this id' body =
     (let url = ''/api/v1/Emails/'' @ id'
      in patch (EmailsClient.client this) url None body)"

definition deleteEmail :: "'r EmailsClient \<Rightarrow> string \<Rightarrow> 'r" where
  "deleteEmail this id' =
     (let url = ''/api/v1/Emails/'' @ id'
      in delete (EmailsClient.client this) url None)"

definition retrieveEmailLogo :: "'r EmailsClient \<Rightarrow> string \<Rightarrow> string \<Rightarrow> 'r" where
  "retrieveEmailLogo this emailId nonce =
     (let url = ''/api/v1/Emails/'' @ emailId @ ''/logo/'' @ nonce
      in get (EmailsClient.client this) url None)"

definition createEmails :: "'r EmailsClient \<Rightarrow> jsvalue list \<Rightarrow> 'r" where
  "createEmails this body =
     (let url = ''/api/v1/Emails''
      in post (EmailsClient.client this) url None (JArr body))"

definition queryEmails ::
  "'r EmailsClient \<Rightarrow> string \<Rightarrow> string \<Rightarrow> string \<Rightarrow> int \<Rightarrow> int \<Rightarrow> 'r" where
  "queryEmails this filter' include order pageSize pageNumber =
     (let url = ''/api/v1/Emails/query'';
          options = \<lparr>params = [(''filter'', JStr filter'), (''include'', JStr include),
                               (''order'', JStr order), (''pageSize'', JNum pageSize),
                               (''pageNumber'', JNum pageNumber)]\<rparr>
      in get (EmailsClient.client this) url (Some options))"

section \<open>LeadsClient\<close>

record 'r LeadsClient =
  client :: "'r LockstepApi"

definition LeadsClient_new :: "'r LockstepApi \<Rightarrow> 'r LeadsClient" where
  "LeadsClient_new c = \<lparr>client = c\<rparr>"

definition createLeads :: "'r LeadsClient \<Rightarrow> jsvalue \<Rightarrow> 'r" where
  "createLeads this body =
     (let url = ''/api/v1/Leads''
      in post (LeadsClient.client this) url None body)"

section \<open>CompaniesClient\<close>

record 'r CompaniesClient =
  client :: "'r LockstepApi"

definition CompaniesClient_new :: "'r LockstepApi \<Rightarrow> 'r CompaniesClient" where
  "CompaniesClient_new c = \<lparr>client = c\<rparr>"

definition retrieveCompany :: "'r CompaniesClient \<Rightarrow> string \<Rightarrow> string \<Rightarrow> 'r" where
  "retrieveCompany this id' include =
     (let url = ''/api/v1/Companies/'' @ id';
          options = \<lparr>params = [(''include'', JStr include)]\<rparr>
      in get (CompaniesClient.client this) url (Some options))"

definition updateCompany :: "'r CompaniesClient \<Rightarrow> string \<Rightarrow> jsvalue \<Rightarrow> 'r" where
  "updateCompany this id' body =
     (let url = ''/api/v1/Companies/'' @ id'
      in patch (CompaniesClient.client this) url None body)"

definition disableCompany :: "'r CompaniesClient \<Rightarrow> string \<Rightarrow> 'r" where
  "disableCompany this id' =
     (let url = ''/api/v1/Companies/'' @ id'
      in delete (CompaniesClient.client this) url None)"

definition createCompanies :: "'r CompaniesClient \<Rightarrow> jsvalue list \<Rightarrow> 'r" where
  "createCompanies this body =
     (let url = ''/api/v1/Companies''
      in post (CompaniesClient.client this) url None (JArr body))"

definition queryCompanies ::
  "'r CompaniesClient \<Rightarrow> string \<Rightarrow> string \<Rightarrow> string \<Rightarrow> int \<Rightarrow> int \<Rightarrow> 'r" where
  "queryCompanies this filter' include order pageSize pageNumber =
     (let url = ''/api/v1/Companies/query'';
          options = \<lparr>params = [(''filter'', JStr filter'), (''include'', JStr include),
                               (''order'', JStr order), (''pageSize'', JNum pageSize),
                               (''pageNumber'', JNum pageNumber)]\<rparr>
      in get (CompaniesClient.client this) url (Some options))"

definition queryCustomerSummary ::
  "'r CompaniesClient \<Rightarrow> string \<Rightarrow> string \<Rightarrow> string \<Rightarrow> int \<Rightarrow> int \<Rightarrow> 'r" where
  "queryCustomerSummary this filter' include order pageSize pageNumber =
     (let url = ''/api/v1/Companies/views/customer-summary'';
          options = \<lparr>params = [(''filter'', JStr filter'), (''include'', JStr include),
                               (''order'', JStr order), (''pageSize'', JNum pageSize),
                               (''pageNumber'', JNum pageNumber)]\<rparr>
      in get (CompaniesClient.client this) url (Some options))"

definition retrieveCustomerDetail :: "'r CompaniesClient \<Rightarrow> string \<Rightarrow> 'r" where
  "retrieveCustomerDetail this id' =
     (let url = ''/api/v1/Companies/views/customer-details/'' @ id'
      in get (CompaniesClient.client this) url None)"

section \<open>CustomFieldDefinitionsClient\<close>

text \<open>This class calls the generic \<open>request\<close> with the method name as a string.\<close>

record 'r CustomFieldDefinitionsClient =
  client :: "'r LockstepApi"

definition CustomFieldDefinitionsClient_new ::
  "'r LockstepApi \<Rightarrow> 'r CustomFieldDefinitionsClient" where
  "CustomFieldDefinitionsClient_new c = \<lparr>client = c\<rparr>"

definition retrieveFieldDefinition ::
  "'r CustomFieldDefinitionsClient \<Rightarrow> string \<Rightarrow> string \<Rightarrow> 'r" where
  "retrieveFieldDefinition this id' include =
     (let url = ''/api/v1/CustomFieldDefinitions/'' @ id';
          options = \<lparr>params = [(''include'', JStr include)]\<rparr>
      in request (CustomFieldDefinitionsClient.client this) ''get'' url (Some options) JNull)"

definition updateFieldDefinition ::
  "'r CustomFieldDefinitionsClient \<Rightarrow> string \<Rightarrow> jsvalue \<Rightarrow> 'r" where
  "updateFieldDefinition this id' body =
     (let url = ''/api/v1/CustomFieldDefinitions/'' @ id'
      in request (CustomFieldDefinitionsClient.client this) ''patch'' url None body)"

definition deleteFieldDefinition :: "'r CustomFieldDefinitionsClient \<Rightarrow> string \<Rightarrow> 'r" where
  "deleteFieldDefinition this id' =
     (let url = ''/api/v1/CustomFieldDefinitions/'' @ id'
      in request (CustomFieldDefinitionsClient.client this) ''delete'' url None JNull)"

definition createFieldDefinitions ::
  "'r CustomFieldDefinitionsClient \<Rightarrow> jsvalue list \<Rightarrow> 'r" where
  "createFieldDefinitions this body =
     (let url = ''/api/v1/CustomFieldDefinitions''
      in request (CustomFieldDefinitionsClient.client this) ''post'' url None (JArr body))"

definition queryFieldDefinitions ::
  "'r CustomFieldDefinitionsClient \<Rightarrow> string \<Rightarrow> string \<Rightarrow> string \<Rightarrow> int \<Rightarrow> int \<Rightarrow> 'r" where
  "queryFieldDefinitions this filter' include order pageSize pageNumber =
     (let url = ''/api/v1/CustomFieldDefinitions/query'';
          options = \<lparr>params = [(''filter'', JStr filter'), (''include'', JStr include),
                               (''order'', JStr order), (''pageSize'', JNum pageSize),
                               (''pageNumber'', JNum pageNumber)]\<rparr>
      in request (CustomFieldDefinitionsClient.client this) ''get'' url (Some options) JNull)"

section \<open>Every resource method, as data\<close>

text \<open>
  One constructor per method of the four classes, with the method's arguments; \<open>invoke\<close>
  builds the resource client over a given API Client and calls the method.
\<close>

datatype resource_call =
    RetrieveEmail string string
  | UpdateEmail string jsvalue
  | DeleteEmail string
  | RetrieveEmailLogo string string
  | CreateEmails "jsvalue list"
  | QueryEmails string string string int int
  | CreateLeads jsvalue
  | RetrieveCompany string string
  | UpdateCompany string jsvalue
  | DisableCompany string
  | CreateCompanies "jsvalue list"
  | QueryCompanies string string string int int
  | QueryCustomerSummary string string string int int
  | RetrieveCustomerDetail string
  | RetrieveFieldDefinition string string
  | UpdateFieldDefinition string jsvalue
  | DeleteFieldDefinition string
  | CreateFieldDefinitions "jsvalue list"
  | QueryFieldDefinitions string string string int int

fun invoke :: "'r LockstepApi \<Rightarrow> resource_call \<Rightarrow> 'r" where
  "invoke c (RetrieveEmail i inc) = retrieveEmail (EmailsClient_new c) i inc"
| "invoke c (UpdateEmail i b) = updateEmail (EmailsClient_new c) i b"
| "invoke c (DeleteEmail i) = deleteEmail (EmailsClient_new c) i"
| "invoke c (RetrieveEmailLogo e n) = retrieveEmailLogo (EmailsClient_new c) e n"
| "invoke c (CreateEmails b) = createEmails (EmailsClient_new c) b"
| "invoke c (QueryEmails f inc ord ps pn) = queryEmails (EmailsClient_new c) f inc ord ps pn"
| "invoke c (CreateLeads b) = createLeads (LeadsClient_new c) b"
| "invoke c (RetrieveCompany i inc) = retrieveCompany (CompaniesClient_new c) i inc"
| "invoke c (UpdateCompany i b) = updateCompany (CompaniesClient_new c) i b"
| "invoke c (DisableCompany i) = disableCompany (CompaniesClient_new c) i"
| "invoke c (CreateCompanies b) = createCompanies (CompaniesClient_new c) b"
| "invoke c (QueryCompanies f inc ord ps pn) =
     queryCompanies (CompaniesClient_new c) f inc ord ps pn"
| "invoke c (QueryCustomerSummary f inc ord ps pn) =
     queryCustomerSummary (CompaniesClient_new c) f inc ord ps pn"
| "invoke c (RetrieveCustomerDetail i) = retrieveCustomerDetail (CompaniesClient_new c) i"
| "invoke c (RetrieveFieldDefinition i inc) =
     retrieveFieldDefinition (CustomFieldDefinitionsClient_new c) i inc"
| "invoke c (UpdateFieldDefinition i b) =
     updateFieldDefinition (CustomFieldDefinitionsClient_new c) i b"
| "invoke c (DeleteFieldDefinition i) =
     deleteFieldDefinition (CustomFieldDefinitionsClient_new c) i"
| "invoke c (CreateFieldDefinitions b) =
     createFieldDefinitions (CustomFieldDefinitionsClient_new c) b"
| "invoke c (QueryFieldDefinitions f inc ord ps pn) =
     queryFieldDefinitions (CustomFieldDefinitionsClient_new c) f inc ord ps pn"

section \<open>Resource clients as objects in a store\<close>

text \<open>
  To speak about assignment, the resource clients are also given as objects in a store. An
  object is known by its address. Each of the four classes declares one field,
  \<open>private readonly client: LockstepApi\<close>; \<open>client_of\<close> holds the value of that field
  for every resource-client object, the address of an API Client. \<open>world\<close> is all other
  state (the API Clients' own state, the network).
\<close>

type_synonym addr = nat

record 'w store =
  client_of :: "addr \<rightharpoonup> addr"
  next_addr :: addr
  world :: 'w

text \<open>
  Reading \<open>this.client\<close> of something that has no such field gives \<open>undefined\<close>, and the
  call of a method on it throws a \<open>TypeError\<close>.
\<close>

datatype js_error = TypeError

text \<open>
  The entry points of the API Client at an address are a parameter; each may read and write
  the whole store.
\<close>

type_synonym ('a, 'w) api_objects = "addr \<Rightarrow> ('w store \<Rightarrow> 'a \<times> 'w store) LockstepApi"

subsection \<open>EmailsClient, on the store\<close>

text \<open>\<open>new EmailsClient(client)\<close>: a fresh object whose field \<open>client\<close> is the argument.\<close>

definition EmailsClient_constructor :: "addr \<Rightarrow> 'w store \<Rightarrow> addr \<times> 'w store" where
  "EmailsClient_constructor client' st =
     (let this = next_addr st
      in (this, st\<lparr>client_of := (client_of st)(this \<mapsto> client'), next_addr := Suc this\<rparr>))"

definition retrieveEmail_obj ::
  "('a, 'w) api_objects \<Rightarrow> addr \<Rightarrow> string \<Rightarrow> string \<Rightarrow> 'w store
     \<Rightarrow> js_error + 'a \<times> 'w store" where
  "retrieveEmail_obj api this id' include st =
     (let url = ''/api/v1/Emails/'' @ id';
          options = \<lparr>params = [(''include'', JStr include)]\<rparr>
      in case client_of st this of
           None \<Rightarrow> Inl TypeError
         | Some c \<Rightarrow> Inr (get (api c) url (Some options) st))"

definition updateEmail_obj ::
  "('a, 'w) api_objects \<Rightarrow> addr \<Rightarrow> string \<Rightarrow> jsvalue \<Rightarrow> 'w store
     \<Rightarrow> js_error + 'a \<times> 'w store" where
  "updateEmail_obj api this id' body st =
     (let url = ''/api/v1/Emails/'' @ id'
      in case client_of st this of
           None \<Rightarrow> Inl TypeError
         | Some c \<Rightarrow> Inr (patch (api c) url None body st))"

definition deleteEmail_obj ::
  "('a, 'w) api_objects \<Rightarrow> addr \<Rightarrow> string \<Rightarrow> 'w store
     \<Rightarrow> js_error + 'a \<times> 'w store" where
  "deleteEmail_obj api this id' st =
     (let url = ''/api/v1/Emails/'' @ id'
      in case client_of st this of
           None \<Rightarrow> Inl TypeError
         | Some c \<Rightarrow> Inr (delete (api c) url None st))"

definition retrieveEmailLogo_obj ::
  "('a, 'w) api_objects \<Rightarrow> addr \<Rightarrow> string \<Rightarrow> string \<Rightarrow> 'w store
     \<Rightarrow> js_error + 'a \<times> 'w store" where
  "retrieveEmailLogo_obj api this emailId nonce st =
     (let url = ''/api/v1/Emails/'' @ emailId @ ''/logo/'' @ nonce
      in case client_of st this of
           None \<Rightarrow> Inl TypeError
         | Some c \<Rightarrow> Inr (get (api c) url None st))"

definition createEmails_obj ::
  "('a, 'w) api_objects \<Rightarrow> addr \<Rightarrow> jsvalue list \<Rightarrow> 'w store
     \<Rightarrow> js_error + 'a \<times> 'w store" where
  "createEmails_obj api this body st =
     (let url = ''/api/v1/Emails''
      in case client_of st this of
           None \<Rightarrow> Inl TypeError
         | Some c \<Rightarrow> Inr (post (api c) url None (JArr body) st))"

definition queryEmails_obj ::
  "('a, 'w) api_objects \<Rightarrow> addr \<Rightarrow> string \<Rightarrow> string \<Rightarrow> string \<Rightarrow> int \<Rightarrow> int \<Rightarrow> 'w store
     \<Rightarrow> js_error + 'a \<times> 'w store" where
  "queryEmails_obj api this filter' include order pageSize pageNumber st =
     (let url = ''/api/v1/Emails/query'';
          options = \<lparr>params = [(''filter'', JStr filter'), (''include'', JStr include),
                               (''order'', JStr order), (''pageSize'', JNum pageSize),
                               (''pageNumber'', JNum pageNumber)]\<rparr>
      in case client_of st this of
           None \<Rightarrow> Inl TypeError
         | Some c \<Rightarrow> Inr (get (api c) url (Some options) st))"

subsection \<open>LeadsClient, on the store\<close>

text \<open>\<open>new LeadsClient(client)\<close>: a fresh object whose field \<open>client\<close> is the argument.\<close>

definition LeadsClient_constructor :: "addr \<Rightarrow> 'w store \<Rightarrow> addr \<times> 'w store" where
  "LeadsClient_constructor client' st =
     (let this = next_addr st
      in (this, st\<lparr>client_of := (client_of st)(this \<mapsto> client'), next_addr := Suc this\<rparr>))"

definition createLeads_obj ::
  "('a, 'w) api_objects \<Rightarrow> addr \<Rightarrow> jsvalue \<Rightarrow> 'w store
     \<Rightarrow> js_error + 'a \<times> 'w store" where
  "createLeads_obj api this body st =
     (let url = ''/api/v1/Leads''
      in case client_of st this of
           None \<Rightarrow> Inl TypeError
         | Some c \<Rightarrow> Inr (post (api c) url None body st))"

subsection \<open>CompaniesClient, on the store\<close>

text \<open>\<open>new CompaniesClient(client)\<close>: a fresh object whose field \<open>client\<close> is the argument.\<close>

definition CompaniesClient_constructor :: "addr \<Rightarrow> 'w store \<Rightarrow> addr \<times> 'w store" where
  "CompaniesClient_constructor client' st =
     (let this = next_addr st
      in (this, st\<lparr>client_of := (client_of st)(this \<mapsto> client'), next_addr := Suc this\<rparr>))"

definition retrieveCompany_obj ::
  "('a, 'w) api_objects \<Rightarrow> addr \<Rightarrow> string \<Rightarrow> string \<Rightarrow> 'w store
     \<Rightarrow> js_error + 'a \<times> 'w store" where
  "retrieveCompany_obj api this id' include st =
     (let url = ''/api/v1/Companies/'' @ id';
          options = \<lparr>params = [(''include'', JStr include)]\<rparr>
      in case client_of st this of
           None \<Rightarrow> Inl TypeError
         | Some c \<Rightarrow> Inr (get (api c) url (Some options) st))"

definition updateCompany_obj ::
  "('a, 'w) api_objects \<Rightarrow> addr \<Rightarrow> string \<Rightarrow> jsvalue \<Rightarrow> 'w store
     \<Rightarrow> js_error + 'a \<times> 'w store" where
  "updateCompany_obj api this id' body st =
     (let url = ''/api/v1/Companies/'' @ id'
      in case client_of st this of
           None \<Rightarrow> Inl TypeError
         | Some c \<Rightarrow> Inr (patch (api c) url None body st))"

definition disableCompany_obj ::
  "('a, 'w) api_objects \<Rightarrow> addr \<Rightarrow> string \<Rightarrow> 'w store
     \<Rightarrow> js_error + 'a \<times> 'w store" where
  "disableCompany_obj api this id' st =
     (let url = ''/api/v1/Companies/'' @ id'
      in case client_of st this of
           None \<Rightarrow> Inl TypeError
         | Some c \<Rightarrow> Inr (delete (api c) url None st))"

definition createCompanies_obj ::
  "('a, 'w) api_objects \<Rightarrow> addr \<Rightarrow> jsvalue list \<Rightarrow> 'w store
     \<Rightarrow> js_error + 'a \<times> 'w store" where
  "createCompanies_obj api this body st =
     (let url = ''/api/v1/Companies''
      in case client_of st this of
           None \<Rightarrow> Inl TypeError
         | Some c \<Rightarrow> Inr (post (api c) url None (JArr body) st))"

definition queryCompanies_obj ::
  "('a, 'w) api_objects \<Rightarrow> addr \<Rightarrow> string \<Rightarrow> string \<Rightarrow> string \<Rightarrow> int \<Rightarrow> int \<Rightarrow> 'w store
     \<Rightarrow> js_error + 'a \<times> 'w store" where
  "queryCompanies_obj api this filter' include order pageSize pageNumber st =
     (let url = ''/api/v1/Companies/query'';
          options = \<lparr>params = [(''filter'', JStr filter'), (''include'', JStr include),
                               (''order'', JStr order), (''pageSize'', JNum pageSize),
                               (''pageNumber'', JNum pageNumber)]\<rparr>
      in case client_of st this of
           None \<Rightarrow> Inl TypeError
         | Some c \<Rightarrow> Inr (get (api c) url (Some options) st))"

definition queryCustomerSummary_obj ::
  "('a, 'w) api_objects \<Rightarrow> addr \<Rightarrow> string \<Rightarrow> string \<Rightarrow> string \<Rightarrow> int \<Rightarrow> int \<Rightarrow> 'w store
     \<Rightarrow> js_error + 'a \<times> 'w store" where
  "queryCustomerSummary_obj api this filter' include order pageSize pageNumber st =
     (let url = ''/api/v1/Companies/views/customer-summary'';
          options = \<lparr>params = [(''filter'', JStr filter'), (''include'', JStr include),
                               (''order'', JStr order), (''pageSize'', JNum pageSize),
                               (''pageNumber'', JNum pageNumber)]\<rparr>
      in case client_of st this of
           None \<Rightarrow> Inl TypeError
         | Some c \<Rightarrow> Inr (get (api c) url (Some options) st))"

definition retrieveCustomerDetail_obj ::
  "('a, 'w) api_objects \<Rightarrow> addr \<Rightarrow> string \<Rightarrow> 'w store
     \<Rightarrow> js_error + 'a \<times> 'w store" where
  "retrieveCustomerDetail_obj api this id' st =
     (let url = ''/api/v1/Companies/views/customer-details/'' @ id'
      in case client_of st this of
           None \<Rightarrow> Inl TypeError
         | Some c \<Rightarrow> Inr (get (api c) url None st))"

subsection \<open>CustomFieldDefinitionsClient, on the store\<close>

text \<open>\<open>new CustomFieldDefinitionsClient(client)\<close>: a fresh object whose field \<open>client\<close> is the argument.\<close>

definition CustomFieldDefinitionsClient_constructor :: "addr \<Rightarrow> 'w store \<Rightarrow> addr \<times> 'w store" where
  "CustomFieldDefinitionsClient_constructor client' st =
     (let this = next_addr st
      in (this, st\<lparr>client_of := (client_of st)(this \<mapsto> client'), next_addr := Suc this\<rparr>))"

definition retrieveFieldDefinition_obj ::
  "('a, 'w) api_objects \<Rightarrow> addr \<Rightarrow> string \<Rightarrow> string \<Rightarrow> 'w store
     \<Rightarrow> js_error + 'a \<times> 'w store" where
  "retrieveFieldDefinition_obj api this id' include st =
     (let url = ''/api/v1/CustomFieldDefinitions/'' @ id';
          options = \<lparr>params = [(''include'', JStr include)]\<rparr>
      in case client_of st this of
           None \<Rightarrow> Inl TypeError
         | Some c \<Rightarrow> Inr (request (api c) ''get'' url (Some options) JNull st))"

definition updateFieldDefinition_obj ::
  "('a, 'w) api_objects \<Rightarrow> addr \<Rightarrow> string \<Rightarrow> jsvalue \<Rightarrow> 'w store
     \<Rightarrow> js_error + 'a \<times> 'w store" where
  "updateFieldDefinition_obj api this id' body st =
     (let url = ''/api/v1/CustomFieldDefinitions/'' @ id'
      in case client_of st this of
           None \<Rightarrow> Inl TypeError
         | Some c \<Rightarrow> Inr (request (api c) ''patch'' url None body st))"

definition deleteFieldDefinition_obj ::
  "('a, 'w) api_objects \<Rightarrow> addr \<Rightarrow> string \<Rightarrow> 'w store
     \<Rightarrow> js_error + 'a \<times> 'w store" where
  "deleteFieldDefinition_obj api this id' st =
     (let url = ''/api/v1/CustomFieldDefinitions/'' @ id'
      in case client_of st this of
           None \<Rightarrow> Inl TypeError
         | Some c \<Rightarrow> Inr (request (api c) ''delete'' url None JNull st))"

definition createFieldDefinitions_obj ::
  "('a, 'w) api_objects \<Rightarrow> addr \<Rightarrow> jsvalue list \<Rightarrow> 'w store
     \<Rightarrow> js_error + 'a \<times> 'w store" where
  "createFieldDefinitions_obj api this body st =
     (let url = ''/api/v1/CustomFieldDefinitions''
      in case client_of st this of
           None \<Rightarrow> Inl TypeError
         | Some c \<Rightarrow> Inr (request (api c) ''post'' url None (JArr body) st))"

definition queryFieldDefinitions_obj ::
  "('a, 'w) api_objects \<Rightarrow> addr \<Rightarrow> string \<Rightarrow> string \<Rightarrow> string \<Rightarrow> int \<Rightarrow> int \<Rightarrow> 'w store
     \<Rightarrow> js_error + 'a \<times> 'w store" where
  "queryFieldDefinitions_obj api this filter' include order pageSize pageNumber st =
     (let url = ''/api/v1/CustomFieldDefinitions/query'';
          options = \<lparr>params = [(''filter'', JStr filter'), (''include'', JStr include),
                               (''order'', JStr order), (''pageSize'', JNum pageSize),
                               (''pageNumber'', JNum pageNumber)]\<rparr>
      in case client_of st this of
           None \<Rightarrow> Inl TypeError
         | Some c \<Rightarrow> Inr (request (api c) ''get'' url (Some options) JNull st))"

subsection \<open>Calling methods on objects\<close>

text \<open>A method call on the object at an address, and a sequence of such calls.\<close>

fun invoke_obj ::
  "('a, 'w) api_objects \<Rightarrow> addr \<Rightarrow> resource_call \<Rightarrow> 'w store \<Rightarrow> js_error + 'a \<times> 'w store" where
  "invoke_obj api this (RetrieveEmail i inc) st =
     retrieveEmail_obj api this i inc st"
| "invoke_obj api this (UpdateEmail i b) st =
     updateEmail_obj api this i b st"
| "invoke_obj api this (DeleteEmail i) st =
     deleteEmail_obj api this i st"
| "invoke_obj api this (RetrieveEmailLogo e n) st =
     retrieveEmailLogo_obj api this e n st"
| "invoke_obj api this (CreateEmails b) st =
     createEmails_obj api this b st"
| "invoke_obj api this (QueryEmails f inc ord ps pn) st =
     queryEmails_obj api this f inc ord ps pn st"
| "invoke_obj api this (CreateLeads b) st =
     createLeads_obj api this b st"
| "invoke_obj api this (RetrieveCompany i inc) st =
     retrieveCompany_obj api this i inc st"
| "invoke_obj api this (UpdateCompany i b) st =
     updateCompany_obj api this i b st"
| "invoke_obj api this (DisableCompany i) st =
     disableCompany_obj api this i st"
| "invoke_obj api this (CreateCompanies b) st =
     createCompanies_obj api this b st"
| "invoke_obj api this (QueryCompanies f inc ord ps pn) st =
     queryCompanies_obj api this f inc ord ps pn st"
| "invoke_obj api this (QueryCustomerSummary f inc ord ps pn) st =
     queryCustomerSummary_obj api this f inc ord ps pn st"
| "invoke_obj api this (RetrieveCustomerDetail i) st =
     retrieveCustomerDetail_obj api this i st"
| "invoke_obj api this (RetrieveFieldDefinition i inc) st =
     retrieveFieldDefinition_obj api this i inc st"
| "invoke_obj api this (UpdateFieldDefinition i b) st =
     updateFieldDefinition_obj api this i b st"
| "invoke_obj api this (DeleteFieldDefinition i) st =
     deleteFieldDefinition_obj api this i st"
| "invoke_obj api this (CreateFieldDefinitions b) st =
     createFieldDefinitions_obj api this b st"
| "invoke_obj api this (QueryFieldDefinitions f inc ord ps pn) st =
     queryFieldDefinitions_obj api this f inc ord ps pn st"

fun run ::
  "('a, 'w) api_objects \<Rightarrow> (addr \<times> resource_call) list \<Rightarrow> 'w store \<Rightarrow> js_error + 'w store" where
  "run api [] st = Inr st"
| "run api ((this, mc) # rest) st =
     (case invoke_obj api this mc st of
        Inl e \<Rightarrow> Inl e
      | Inr (r, st') \<Rightarrow> run api rest st')"

text \<open>
  An API Client for trying things out: every entry point answers with its own invocation
  and counts the call in \<open>world\<close>.
\<close>

definition counted :: "api_call \<Rightarrow> nat store \<Rightarrow> api_call \<times> nat store" where
  "counted call st = (call, st\<lparr>world := Suc (world st)\<rparr>)"

definition counting_api :: "(api_call, nat) api_objects" where
  "counting_api c =
     \<lparr>request = (\<lambda>m p opts b. counted (Request m p opts b)),
      get = (\<lambda>p opts. counted (Get p opts)),
      post = (\<lambda>p opts b. counted (Post p opts b)),
      patch = (\<lambda>p opts b. counted (Patch p opts b)),
      delete = (\<lambda>p opts. counted (Delete p opts))\<rparr>"

definition empty_store :: "nat store" where
  "empty_store = \<lparr>client_of = Map.empty, next_addr = 0, world = 0\<rparr>"

section \<open>The API Client, from its specification\<close>

text \<open>
  Modelled from the spec: the class \<open>LockstepApi\<close> of \<open>src/APIClient.ts\<close> is not part of
  the sources at hand; only its callers are. What follows is the API Client as the
  specification describes it: Session State, the Transport Adapter, the Result Normalizer
  and the five entry points.
\<close>

text \<open>
  Modelled from the spec: the HTTP call handed to the Transport Adapter (method,
  fully-resolved URL, headers, query parameters, optional body).
\<close>

record Http_Request =
  httpMethod :: string
  url :: string
  headers :: "(string \<times> string) list"
  query :: "(string \<times> jsvalue) list"
  body :: "jsvalue option"

text \<open>
  Modelled from the spec: what the Transport Adapter returns, a raw response (status,
  headers, body) or a transport-level failure with the transport error's message. The body
  is carried deserialized; \<open>JUndefined\<close> stands for an absent or malformed body.
\<close>

datatype transport_outcome =
    Http_Response nat "(string \<times> string) list" jsvalue
  | Transport_Failure string

text \<open>
  Modelled from the spec: the Error Result (HTTP status code, message, optional field-level
  validation errors). \<open>None\<close> is the sentinel "no status" marker of a transport failure.
\<close>

record ErrorResult =
  status :: "nat option"
  message :: string
  validation :: "(string \<times> string) list option"

text \<open>
  Modelled from the spec: Client Session State (base URL, credential, content type) together
  with the Transport Adapter instance, both owned by the API Client.
\<close>

record Session_State =
  baseUrl :: string
  credential :: string
  contentType :: string
  transport :: "Http_Request \<Rightarrow> transport_outcome"

text \<open>
  Modelled from the spec: the \<open>Promise\<close> an entry point returns; it settles by resolving
  with a value or by rejecting with a reason.
\<close>

datatype 'a promise = Resolved 'a | Rejected string

text \<open>
  Modelled from the spec: the resolved value of an entry point is the union
  \<open>T | ErrorResult\<close>; \<open>Inl\<close> is the Error Result, \<open>Inr\<close> the deserialized body.
\<close>

type_synonym api_result = "ErrorResult + jsvalue"

text \<open>
  Modelled from the spec: one call of an entry point, that is the HTTP call it dispatched
  through the Transport Adapter and the promise it returned.
\<close>

record exchange =
  dispatched :: Http_Request
  settled :: "api_result promise"

text \<open>
  Modelled from the spec: entries of \<open>params\<close> whose value is \<open>undefined\<close> are dropped
  before encoding; \<open>options\<close> equal to \<open>null\<close> carries no parameters.
\<close>

definition defined_params :: "options option \<Rightarrow> (string \<times> jsvalue) list" where
  "defined_params opts =
     (case opts of
        None \<Rightarrow> []
      | Some o' \<Rightarrow> filter (\<lambda>(k, v). v \<noteq> JUndefined) (params o'))"

text \<open>Modelled from the spec: the body is sent when present.\<close>

fun present_body :: "jsvalue \<Rightarrow> jsvalue option" where
  "present_body JUndefined = None"
| "present_body JNull = None"
| "present_body b = Some b"

text \<open>
  Modelled from the spec: the path is resolved against the fixed base URL and the default
  headers (content type, authentication credential) are attached. The header names are the
  conventional ones; the specification does not fix them. The entry points take no headers
  from the caller (\<open>params\<close> is the only recognized field of \<open>options\<close>).
\<close>

definition build_request ::
  "Session_State \<Rightarrow> string \<Rightarrow> string \<Rightarrow> options option \<Rightarrow> jsvalue \<Rightarrow> Http_Request" where
  "build_request s method path opts b =
     \<lparr>httpMethod = method,
      url = baseUrl s @ path,
      headers = [(''Content-Type'', contentType s), (''Authorization'', credential s)],
      query = defined_params opts,
      body = present_body b\<rparr>"

text \<open>Modelled from the spec: the status-code branching, 2xx against everything else.\<close>

definition is_2xx :: "nat \<Rightarrow> bool" where
  "is_2xx st = (200 \<le> st \<and> st < 300)"

text \<open>
  Modelled from the spec: the generic message of an Error Result whose body is absent or
  malformed. The specification does not fix its text.
\<close>

definition generic_message :: string where
  "generic_message = ''Request failed''"

text \<open>Modelled from the spec: reading a field of a structured error body.\<close>

fun field :: "string \<Rightarrow> jsvalue \<Rightarrow> jsvalue option" where
  "field k (JObj kvs) = map_of kvs k"
| "field k v = None"

text \<open>
  Modelled from the spec: the message is taken from the error body when it is structured,
  and is the generic message otherwise.
\<close>

definition error_message :: "jsvalue \<Rightarrow> string" where
  "error_message b =
     (case field ''message'' b of Some (JStr m) \<Rightarrow> m | _ \<Rightarrow> generic_message)"

text \<open>
  Modelled from the spec: the optional field-level validation errors (field name to
  message) of a structured error body. The specification does not name the key that holds
  them; \<open>validation\<close> is used.
\<close>

fun validation_entries :: "(string \<times> jsvalue) list \<Rightarrow> (string \<times> string) list" where
  "validation_entries [] = []"
| "validation_entries ((k, JStr m) # kvs) = (k, m) # validation_entries kvs"
| "validation_entries (kv # kvs) = validation_entries kvs"

text \<open>Modelled from the spec: the validation detail of an error body, when present.\<close>

definition error_validation :: "jsvalue \<Rightarrow> (string \<times> string) list option" where
  "error_validation b =
     (case field ''validation'' b of
        Some (JObj kvs) \<Rightarrow> Some (validation_entries kvs)
      | _ \<Rightarrow> None)"

text \<open>
  Modelled from the spec: the Result Normalizer. A 2xx status gives the deserialized body;
  every other status gives an Error Result that keeps the status, with message and
  validation detail taken from a structured body and a generic message otherwise; a
  transport failure gives an Error Result without status and with the transport error's
  message.
\<close>

definition normalize :: "transport_outcome \<Rightarrow> api_result" where
  "normalize out =
     (case out of
        Http_Response st hs b \<Rightarrow>
          if is_2xx st then Inr b
          else Inl \<lparr>status = Some st, message = error_message b,
                    validation = error_validation b\<rparr>
      | Transport_Failure msg \<Rightarrow>
          Inl \<lparr>status = None, message = msg, validation = None\<rparr>)"

text \<open>
  Modelled from the spec: \<open>request\<close>, the common implementation: one HTTP call through the
  Transport Adapter, normalized, and the promise resolves with the normalized result.
\<close>

definition api_request ::
  "Session_State \<Rightarrow> string \<Rightarrow> string \<Rightarrow> options option \<Rightarrow> jsvalue \<Rightarrow> exchange" where
  "api_request s method path opts b =
     (let rq = build_request s method path opts b
      in \<lparr>dispatched = rq, settled = Resolved (normalize (transport s rq))\<rparr>)"

text \<open>
  Modelled from the spec: \<open>get\<close>, a thin verb operation that delegates to \<open>request\<close>; it
  takes no body.
\<close>

definition api_get :: "Session_State \<Rightarrow> string \<Rightarrow> options option \<Rightarrow> exchange" where
  "api_get s path opts = api_request s ''get'' path opts JUndefined"

text \<open>Modelled from the spec: \<open>post\<close> delegates to \<open>request\<close>.\<close>

definition api_post ::
  "Session_State \<Rightarrow> string \<Rightarrow> options option \<Rightarrow> jsvalue \<Rightarrow> exchange" where
  "api_post s path opts b = api_request s ''post'' path opts b"

text \<open>Modelled from the spec: \<open>patch\<close> delegates to \<open>request\<close>.\<close>

definition api_patch ::
  "Session_State \<Rightarrow> string \<Rightarrow> options option \<Rightarrow> jsvalue \<Rightarrow> exchange" where
  "api_patch s path opts b = api_request s ''patch'' path opts b"

text \<open>
  Modelled from the spec: \<open>delete\<close> delegates to \<open>request\<close>; it takes no body.
\<close>

definition api_delete :: "Session_State \<Rightarrow> string \<Rightarrow> options option \<Rightarrow> exchange" where
  "api_delete s path opts = api_request s ''delete'' path opts JUndefined"

text \<open>
  Modelled from the spec: the API Client constructed over a Session State, with its five
  entry points.
\<close>

definition LockstepApi_new :: "Session_State \<Rightarrow> exchange LockstepApi" where
  "LockstepApi_new s =
     \<lparr>request = api_request s, get = api_get s, post = api_post s,
      patch = api_patch s, delete = api_delete s\<rparr>"

section \<open>Mock servers of the scenarios\<close>

definition mock_server :: "nat \<Rightarrow> jsvalue \<Rightarrow> Http_Request \<Rightarrow> transport_outcome" where
  "mock_server st b rq = Http_Response st [] b"

definition refusing_server :: "Http_Request \<Rightarrow> transport_outcome" where
  "refusing_server rq = Transport_Failure ''connect ECONNREFUSED''"

definition mock_session :: "(Http_Request \<Rightarrow> transport_outcome) \<Rightarrow> Session_State" where
  "mock_session t =
     \<lparr>baseUrl = ''https://api.lockstep.io'', credential = ''Bearer token'',
      contentType = ''application/json'', transport = t\<rparr>"

definition not_found_body :: jsvalue where
  "not_found_body = JObj [(''status'', JNum 404), (''message'', JStr ''Not Found'')]"

definition email_body :: jsvalue where
  "email_body = JObj [(''id'', JStr ''abc-123''), (''subject'', JStr ''Hi'')]"

section \<open>Shared lemmas\<close>

lemmas method_defs =
  retrieveEmail_def updateEmail_def deleteEmail_def retrieveEmailLogo_def createEmails_def
  queryEmails_def createLeads_def retrieveCompany_def updateCompany_def disableCompany_def
  createCompanies_def queryCompanies_def queryCustomerSummary_def retrieveCustomerDetail_def
  retrieveFieldDefinition_def updateFieldDefinition_def deleteFieldDefinition_def
  createFieldDefinitions_def queryFieldDefinitions_def

lemmas new_defs = EmailsClient_new_def LeadsClient_new_def CompaniesClient_new_def
  CustomFieldDefinitionsClient_new_def

lemmas api_defs = LockstepApi_new_def api_request_def api_get_def api_post_def
  api_patch_def api_delete_def

text \<open>
  Whatever the API Client is, a resource method over it is the invocation that the probe
  client reports, performed on that API Client.
\<close>

lemma invoke_perform: "invoke c mc = perform c (invoke probe mc)"
  by (cases mc) (simp_all add: method_defs new_defs probe_def)

text \<open>
  On the specified API Client every entry point resolves with the normalized outcome of the
  HTTP call it dispatched, and the query of that call is the defined part of \<open>params\<close>.
\<close>

lemma perform_settled:
  "settled (perform (LockstepApi_new s) call) =
     Resolved (normalize (transport s (dispatched (perform (LockstepApi_new s) call))))"
  by (cases call) (simp_all add: api_defs Let_def)


lemmas obj_defs =
  retrieveEmail_obj_def updateEmail_obj_def deleteEmail_obj_def retrieveEmailLogo_obj_def
  createEmails_obj_def queryEmails_obj_def createLeads_obj_def retrieveCompany_obj_def
  updateCompany_obj_def disableCompany_obj_def createCompanies_obj_def queryCompanies_obj_def
  queryCustomerSummary_obj_def retrieveCustomerDetail_obj_def retrieveFieldDefinition_obj_def
  updateFieldDefinition_obj_def deleteFieldDefinition_obj_def createFieldDefinitions_obj_def
  queryFieldDefinitions_obj_def

lemmas constructor_defs = EmailsClient_constructor_def LeadsClient_constructor_def
  CompaniesClient_constructor_def CustomFieldDefinitionsClient_constructor_def

text \<open>
  On the store, a method called on an object reads the object's \<open>client\<close> and is the one
  invocation of that API Client; on anything else it throws.
\<close>

lemma invoke_obj_perform:
  "invoke_obj api this mc st =
     (case client_of st this of
        None \<Rightarrow> Inl TypeError
      | Some c \<Rightarrow> Inr (perform (api c) (invoke probe mc) st))"
  by (cases mc)
     (simp_all add: obj_defs method_defs new_defs probe_def split: option.split)

text \<open>
  If no entry point of an API Client writes a \<open>client\<close> field, no sequence of method
  calls changes one.
\<close>

lemma run_keeps_client_of:
  assumes api: "\<forall>c call s. client_of (snd (perform (api c) call s)) = client_of s"
  shows "run api calls st = Inr st' \<Longrightarrow> client_of st' = client_of st"
proof (induction calls arbitrary: st)
  case Nil
  then show ?case by simp
next
  case (Cons tc calls)
  obtain this mc where tc: "tc = (this, mc)" by (cases tc)
  from Cons.prems obtain r st1 where
    step: "invoke_obj api this mc st = Inr (r, st1)" and rest: "run api calls st1 = Inr st'"
    by (auto simp: tc split: sum.splits)
  from step obtain c where "perform (api c) (invoke probe mc) st = (r, st1)"
    by (auto simp: invoke_obj_perform split: option.splits)
  then have "st1 = snd (perform (api c) (invoke probe mc) st)"
    by simp
  with api have "client_of st1 = client_of st" by simp
  with Cons.IH [OF rest] show ?case by simp
qed

text \<open>The counting API Client writes no \<open>client\<close> field.\<close>

lemma counting_keeps: "client_of (snd (perform (counting_api a) call s)) = client_of s"
  by (cases call) (simp_all add: counting_api_def counted_def)

section \<open>The API Client's contract\<close>

text \<open>
  Claim C1. Every call of an entry point of the API Client (\<open>request\<close>, \<open>get\<close>, \<open>post\<close>,
  \<open>patch\<close>, \<open>delete\<close>), and hence every method of the four resource clients over it,
  returns a promise that resolves and does not reject, whatever the Transport Adapter
  answers: any HTTP status or a transport-level failure. The resolved value is of the
  union type, an Error Result or a body. When the transport refuses the connection the
  promise resolves with an Error Result that carries no status and the transport error's
  message.
\<close>

theorem api_client_always_resolves:
  "(\<exists>v. settled (perform (LockstepApi_new s) call) = Resolved v)
   \<and> settled (perform (LockstepApi_new s) call) \<noteq> Rejected e
   \<and> (\<exists>v. settled (invoke (LockstepApi_new s) mc) = Resolved v)
   \<and> settled (invoke (LockstepApi_new s) mc) \<noteq> Rejected e
   \<and> settled (perform (LockstepApi_new (s\<lparr>transport := refusing_server\<rparr>)) call) =
       Resolved (Inl \<lparr>status = None, message = ''connect ECONNREFUSED'', validation = None\<rparr>)"
proof -
  have a: "\<And>cl. settled (perform (LockstepApi_new s) cl) =
      Resolved (normalize (transport s (dispatched (perform (LockstepApi_new s) cl))))"
    by (rule perform_settled)
  have b: "settled (invoke (LockstepApi_new s) mc) =
      settled (perform (LockstepApi_new s) (invoke probe mc))"
    by (subst invoke_perform) simp
  have c: "settled (perform (LockstepApi_new (s\<lparr>transport := refusing_server\<rparr>)) call) =
      Resolved (Inl \<lparr>status = None, message = ''connect ECONNREFUSED'', validation = None\<rparr>)"
    by (simp add: perform_settled refusing_server_def normalize_def)
  show ?thesis using c by (simp add: a b)
qed

text \<open>
  Claim C2. When the response to the dispatched call has a status outside 200..299, the
  entry point resolves with an Error Result whose status is that HTTP status. In
  particular \<open>retrieveEmail("missing-id", "")\<close> against a server that answers 404 with
  the body \<open>{status: 404, message: "Not Found"}\<close> resolves with an Error Result of status
  404 and message \<open>Not Found\<close>.
\<close>

theorem non_2xx_keeps_status:
  "(transport s (dispatched (perform (LockstepApi_new s) call)) = Http_Response st hs b
      \<and> \<not> is_2xx st
    \<longrightarrow> (\<exists>e. settled (perform (LockstepApi_new s) call) = Resolved (Inl e)
           \<and> status e = Some st))
   \<and> settled (retrieveEmail (EmailsClient_new (LockstepApi_new
          (s\<lparr>transport := mock_server 404 not_found_body\<rparr>))) ''missing-id'' '''') =
       Resolved (Inl \<lparr>status = Some 404, message = ''Not Found'', validation = None\<rparr>)"
proof -
  have sc: "settled (retrieveEmail (EmailsClient_new (LockstepApi_new
          (s\<lparr>transport := mock_server 404 not_found_body\<rparr>))) ''missing-id'' '''') =
       Resolved (Inl \<lparr>status = Some 404, message = ''Not Found'', validation = None\<rparr>)"
    by (simp add: retrieveEmail_def EmailsClient_new_def api_defs Let_def mock_server_def
        not_found_body_def normalize_def is_2xx_def error_message_def error_validation_def)
  show ?thesis using sc by (simp add: perform_settled normalize_def)
qed

text \<open>
  The hypotheses of C2 hold for the call that \<open>retrieveEmail("missing-id", "")\<close> makes
  against the 404 server.
\<close>

theorem non_2xx_keeps_status_witness:
  "transport (mock_session (mock_server 404 not_found_body))
      (dispatched (perform (LockstepApi_new (mock_session (mock_server 404 not_found_body)))
         (invoke probe (RetrieveEmail ''missing-id'' '''')))) =
     Http_Response 404 [] not_found_body
   \<and> \<not> is_2xx 404
   \<and> (\<exists>e. settled (perform (LockstepApi_new (mock_session (mock_server 404 not_found_body)))
         (invoke probe (RetrieveEmail ''missing-id'' ''''))) = Resolved (Inl e)
        \<and> status e = Some 404)"
  using non_2xx_keeps_status [of "mock_session (mock_server 404 not_found_body)"
      "invoke probe (RetrieveEmail ''missing-id'' '''')" 404 "[]" not_found_body]
  by (simp add: mock_session_def mock_server_def is_2xx_def)

text \<open>
  Claim C3. When the response to the dispatched call has a 2xx status, the entry point
  resolves with the deserialized body itself, not with an Error Result and without an
  envelope; this holds for every body, so for every body of the expected shape. In
  particular \<open>retrieveEmail("abc-123", "Attachments")\<close> against a server that answers 200
  with \<open>{id: "abc-123", subject: "Hi"}\<close> resolves with exactly that object.
\<close>

theorem success_is_the_body:
  "(transport s (dispatched (perform (LockstepApi_new s) call)) = Http_Response st hs b
      \<and> is_2xx st
    \<longrightarrow> settled (perform (LockstepApi_new s) call) = Resolved (Inr b))
   \<and> settled (retrieveEmail (EmailsClient_new (LockstepApi_new
          (s\<lparr>transport := mock_server 200 email_body\<rparr>))) ''abc-123'' ''Attachments'') =
       Resolved (Inr (JObj [(''id'', JStr ''abc-123''), (''subject'', JStr ''Hi'')]))"
proof -
  have sc: "settled (retrieveEmail (EmailsClient_new (LockstepApi_new
          (s\<lparr>transport := mock_server 200 email_body\<rparr>))) ''abc-123'' ''Attachments'') =
       Resolved (Inr (JObj [(''id'', JStr ''abc-123''), (''subject'', JStr ''Hi'')]))"
    by (simp add: retrieveEmail_def EmailsClient_new_def api_defs Let_def mock_server_def
        email_body_def normalize_def is_2xx_def)
  show ?thesis using sc by (simp add: perform_settled normalize_def)
qed

text \<open>
  The hypotheses of C3 hold for the call that \<open>retrieveEmail("abc-123", "Attachments")\<close>
  makes against the 200 server.
\<close>

theorem success_is_the_body_witness:
  "transport (mock_session (mock_server 200 email_body))
      (dispatched (perform (LockstepApi_new (mock_session (mock_server 200 email_body)))
         (invoke probe (RetrieveEmail ''abc-123'' ''Attachments'')))) =
     Http_Response 200 [] email_body
   \<and> is_2xx 200
   \<and> settled (perform (LockstepApi_new (mock_session (mock_server 200 email_body)))
         (invoke probe (RetrieveEmail ''abc-123'' ''Attachments''))) = Resolved (Inr email_body)"
  using success_is_the_body [of "mock_session (mock_server 200 email_body)"
      "invoke probe (RetrieveEmail ''abc-123'' ''Attachments'')" 200 "[]" email_body]
  by (simp add: mock_session_def mock_server_def is_2xx_def)



text \<open>
  Claim C8. On the API Client each verb operation equals the generic \<open>request\<close> called
  with the verb's name (for \<open>get\<close> and \<open>delete\<close> with the body absent, \<open>null\<close> or
  \<open>undefined\<close>): the same HTTP call is dispatched and the same promise returned. So
  \<open>deleteFieldDefinition\<close>, which calls \<open>request('delete', url, null, null)\<close>, equals
  \<open>delete(url, null)\<close>, and \<open>deleteEmail\<close>, which calls \<open>delete(url, null)\<close>, equals
  \<open>request('delete', url, null, null)\<close>.
\<close>

theorem verbs_delegate_to_request:
  "get (LockstepApi_new s) p opts = request (LockstepApi_new s) ''get'' p opts JNull
   \<and> get (LockstepApi_new s) p opts = request (LockstepApi_new s) ''get'' p opts JUndefined
   \<and> post (LockstepApi_new s) p opts b = request (LockstepApi_new s) ''post'' p opts b
   \<and> patch (LockstepApi_new s) p opts b = request (LockstepApi_new s) ''patch'' p opts b
   \<and> delete (LockstepApi_new s) p opts = request (LockstepApi_new s) ''delete'' p opts JNull
   \<and> delete (LockstepApi_new s) p opts = request (LockstepApi_new s) ''delete'' p opts JUndefined
   \<and> deleteFieldDefinition (CustomFieldDefinitionsClient_new (LockstepApi_new s)) i =
       delete (LockstepApi_new s) (''/api/v1/CustomFieldDefinitions/'' @ i) None
   \<and> deleteEmail (EmailsClient_new (LockstepApi_new s)) i =
       request (LockstepApi_new s) ''delete'' (''/api/v1/Emails/'' @ i) None JNull"
  by (simp add: api_defs build_request_def deleteFieldDefinition_def deleteEmail_def new_defs)

section \<open>The resource clients\<close>

text \<open>
  Claim C6, as stated, fails. \<open>queryCustomerSummary\<close> accepts \<open>filter\<close>, \<open>include\<close>,
  \<open>order\<close>, \<open>pageSize\<close>, \<open>pageNumber\<close>, and the path it builds does not end in
  \<open>/query\<close>.
\<close>

theorem query_suffix_counterexample:
  "\<not> suffix ''/query''
       (call_path (queryCustomerSummary (CompaniesClient_new probe) ''a'' ''b'' ''c'' 50 0))"
  by (simp add: queryCustomerSummary_def CompaniesClient_new_def probe_def suffix_def)

text \<open>
  Claim C6, amended. \<open>queryEmails\<close>, \<open>queryCompanies\<close> and \<open>queryFieldDefinitions\<close> build
  a path that ends in \<open>/query\<close>; \<open>queryCustomerSummary\<close> builds the path
  \<open>/api/v1/Companies/views/customer-summary\<close>. All four pass exactly the parameters
  \<open>filter\<close>, \<open>include\<close>, \<open>order\<close>, \<open>pageSize\<close>, \<open>pageNumber\<close> with the caller's
  arguments as they are.
\<close>

theorem query_methods_amended:
  "queryEmails (EmailsClient_new c) f inc ord ps pn =
     get c ''/api/v1/Emails/query''
       (Some \<lparr>params = [(''filter'', JStr f), (''include'', JStr inc), (''order'', JStr ord),
                        (''pageSize'', JNum ps), (''pageNumber'', JNum pn)]\<rparr>)
   \<and> suffix ''/query'' ''/api/v1/Emails/query''
   \<and> queryCompanies (CompaniesClient_new c) f inc ord ps pn =
     get c ''/api/v1/Companies/query''
       (Some \<lparr>params = [(''filter'', JStr f), (''include'', JStr inc), (''order'', JStr ord),
                        (''pageSize'', JNum ps), (''pageNumber'', JNum pn)]\<rparr>)
   \<and> suffix ''/query'' ''/api/v1/Companies/query''
   \<and> queryFieldDefinitions (CustomFieldDefinitionsClient_new c) f inc ord ps pn =
     request c ''get'' ''/api/v1/CustomFieldDefinitions/query''
       (Some \<lparr>params = [(''filter'', JStr f), (''include'', JStr inc), (''order'', JStr ord),
                        (''pageSize'', JNum ps), (''pageNumber'', JNum pn)]\<rparr>) JNull
   \<and> suffix ''/query'' ''/api/v1/CustomFieldDefinitions/query''
   \<and> queryCustomerSummary (CompaniesClient_new c) f inc ord ps pn =
     get c ''/api/v1/Companies/views/customer-summary''
       (Some \<lparr>params = [(''filter'', JStr f), (''include'', JStr inc), (''order'', JStr ord),
                        (''pageSize'', JNum ps), (''pageNumber'', JNum pn)]\<rparr>)"
proof -
  have s1: "suffix ''/query'' (''/api/v1/Emails'' @ ''/query'')"
    by (rule suffix_appendI) simp
  have s2: "suffix ''/query'' (''/api/v1/Companies'' @ ''/query'')"
    by (rule suffix_appendI) simp
  have s3: "suffix ''/query'' (''/api/v1/CustomFieldDefinitions'' @ ''/query'')"
    by (rule suffix_appendI) simp
  show ?thesis using s1 s2 s3
    by (simp add: queryEmails_def queryCompanies_def queryFieldDefinitions_def
        queryCustomerSummary_def new_defs)
qed

text \<open>
  Claim C7. Every method of \<open>EmailsClient\<close>, \<open>LeadsClient\<close>, \<open>CompaniesClient\<close> and
  \<open>CustomFieldDefinitionsClient\<close> is one invocation of one entry point of the API Client
  (a verb operation in the first three classes, the generic \<open>request\<close> with the verb's
  name in the last), on one path and with \<open>null\<close> or one parameter object, and its result
  is the result of that invocation: for any API Client, any arguments, the same invocation,
  with no check of the arguments and no second call.
\<close>

theorem resource_methods_are_one_call:
  "retrieveEmail (EmailsClient_new c) i inc =
     perform c (Get (''/api/v1/Emails/'' @ i) (Some \<lparr>params = [(''include'', JStr inc)]\<rparr>))
   \<and> updateEmail (EmailsClient_new c) i b = perform c (Patch (''/api/v1/Emails/'' @ i) None b)
   \<and> deleteEmail (EmailsClient_new c) i = perform c (Delete (''/api/v1/Emails/'' @ i) None)
   \<and> retrieveEmailLogo (EmailsClient_new c) e n =
       perform c (Get (''/api/v1/Emails/'' @ e @ ''/logo/'' @ n) None)
   \<and> createEmails (EmailsClient_new c) bs = perform c (Post ''/api/v1/Emails'' None (JArr bs))
   \<and> queryEmails (EmailsClient_new c) f inc ord ps pn =
       perform c (Get ''/api/v1/Emails/query''
         (Some \<lparr>params = [(''filter'', JStr f), (''include'', JStr inc), (''order'', JStr ord),
                          (''pageSize'', JNum ps), (''pageNumber'', JNum pn)]\<rparr>))
   \<and> createLeads (LeadsClient_new c) b = perform c (Post ''/api/v1/Leads'' None b)
   \<and> retrieveCompany (CompaniesClient_new c) i inc =
       perform c (Get (''/api/v1/Companies/'' @ i)
         (Some \<lparr>params = [(''include'', JStr inc)]\<rparr>))
   \<and> updateCompany (CompaniesClient_new c) i b =
       perform c (Patch (''/api/v1/Companies/'' @ i) None b)
   \<and> disableCompany (CompaniesClient_new c) i =
       perform c (Delete (''/api/v1/Companies/'' @ i) None)
   \<and> createCompanies (CompaniesClient_new c) bs =
       perform c (Post ''/api/v1/Companies'' None (JArr bs))
   \<and> queryCompanies (CompaniesClient_new c) f inc ord ps pn =
       perform c (Get ''/api/v1/Companies/query''
         (Some \<lparr>params = [(''filter'', JStr f), (''include'', JStr inc), (''order'', JStr ord),
                          (''pageSize'', JNum ps), (''pageNumber'', JNum pn)]\<rparr>))
   \<and> queryCustomerSummary (CompaniesClient_new c) f inc ord ps pn =
       perform c (Get ''/api/v1/Companies/views/customer-summary''
         (Some \<lparr>params = [(''filter'', JStr f), (''include'', JStr inc), (''order'', JStr ord),
                          (''pageSize'', JNum ps), (''pageNumber'', JNum pn)]\<rparr>))
   \<and> retrieveCustomerDetail (CompaniesClient_new c) i =
       perform c (Get (''/api/v1/Companies/views/customer-details/'' @ i) None)
   \<and> retrieveFieldDefinition (CustomFieldDefinitionsClient_new c) i inc =
       perform c (Request ''get'' (''/api/v1/CustomFieldDefinitions/'' @ i)
         (Some \<lparr>params = [(''include'', JStr inc)]\<rparr>) JNull)
   \<and> updateFieldDefinition (CustomFieldDefinitionsClient_new c) i b =
       perform c (Request ''patch'' (''/api/v1/CustomFieldDefinitions/'' @ i) None b)
   \<and> deleteFieldDefinition (CustomFieldDefinitionsClient_new c) i =
       perform c (Request ''delete'' (''/api/v1/CustomFieldDefinitions/'' @ i) None JNull)
   \<and> createFieldDefinitions (CustomFieldDefinitionsClient_new c) bs =
       perform c (Request ''post'' ''/api/v1/CustomFieldDefinitions'' None (JArr bs))
   \<and> queryFieldDefinitions (CustomFieldDefinitionsClient_new c) f inc ord ps pn =
       perform c (Request ''get'' ''/api/v1/CustomFieldDefinitions/query''
         (Some \<lparr>params = [(''filter'', JStr f), (''include'', JStr inc), (''order'', JStr ord),
                          (''pageSize'', JNum ps), (''pageNumber'', JNum pn)]\<rparr>) JNull)"
  by (simp add: method_defs new_defs)

text \<open>
  Claim C9. The state of a resource client is its one field \<open>client\<close>, a reference to the
  API Client. The constructor of each class sets that field of the new object to its
  argument and writes no field of any other object. A method writes nothing: called on an
  object it is the one invocation of the API Client that \<open>client\<close> refers to, and the
  store after the method is the store that this invocation returns. So the field is never
  reassigned: when the entry points of the API Clients write no \<open>client\<close> field, the
  \<open>client\<close> fields of all objects are the same after any sequence of method calls.
\<close>

theorem resource_clients_own_no_state:
  "client_of (snd (EmailsClient_constructor c st)) =
     (client_of st)(fst (EmailsClient_constructor c st) \<mapsto> c)
   \<and> client_of (snd (LeadsClient_constructor c st)) =
     (client_of st)(fst (LeadsClient_constructor c st) \<mapsto> c)
   \<and> client_of (snd (CompaniesClient_constructor c st)) =
     (client_of st)(fst (CompaniesClient_constructor c st) \<mapsto> c)
   \<and> client_of (snd (CustomFieldDefinitionsClient_constructor c st)) =
     (client_of st)(fst (CustomFieldDefinitionsClient_constructor c st) \<mapsto> c)
   \<and> invoke_obj api this mc st =
       (case client_of st this of
          None \<Rightarrow> Inl TypeError
        | Some a \<Rightarrow> Inr (perform (api a) (invoke probe mc) st))
   \<and> ((\<forall>a call s. client_of (snd (perform (api a) call s)) = client_of s)
        \<and> run api calls st = Inr st'
      \<longrightarrow> client_of st' = client_of st)"
proof -
  have ctors:
    "client_of (snd (EmailsClient_constructor c st)) =
       (client_of st)(fst (EmailsClient_constructor c st) \<mapsto> c)"
    "client_of (snd (LeadsClient_constructor c st)) =
       (client_of st)(fst (LeadsClient_constructor c st) \<mapsto> c)"
    "client_of (snd (CompaniesClient_constructor c st)) =
       (client_of st)(fst (CompaniesClient_constructor c st) \<mapsto> c)"
    "client_of (snd (CustomFieldDefinitionsClient_constructor c st)) =
       (client_of st)(fst (CustomFieldDefinitionsClient_constructor c st) \<mapsto> c)"
    by (simp_all add: constructor_defs Let_def)
  have inv: "(\<forall>a call s. client_of (snd (perform (api a) call s)) = client_of s)
        \<and> run api calls st = Inr st'
      \<longrightarrow> client_of st' = client_of st"
    using run_keeps_client_of [of api calls st st'] by blast
  show ?thesis
    using ctors inv invoke_obj_perform [of api this mc st] by blast
qed

text \<open>
  The hypotheses of C9 hold for an \<open>EmailsClient\<close> constructed over the counting API
  Client on which \<open>retrieveEmail\<close> and \<open>deleteEmail\<close> are called: two calls are counted
  and \<open>client\<close> is as the constructor set it.
\<close>

theorem resource_clients_own_no_state_witness:
  "(\<forall>a call s. client_of (snd (perform (counting_api a) call s)) = client_of s)
   \<and> run counting_api [(0, RetrieveEmail ''a'' ''b''), (0, DeleteEmail ''a'')]
        (snd (EmailsClient_constructor 7 empty_store)) =
      Inr \<lparr>client_of = [0 \<mapsto> 7], next_addr = 1, world = 2\<rparr>
   \<and> client_of \<lparr>client_of = [0 \<mapsto> 7], next_addr = 1, world = 2::nat\<rparr> =
      client_of (snd (EmailsClient_constructor 7 empty_store))"
proof -
  have h: "\<forall>a call s. client_of (snd (perform (counting_api a) call s)) = client_of s"
    by (simp add: counting_keeps)
  have r: "run counting_api [(0, RetrieveEmail ''a'' ''b''), (0, DeleteEmail ''a'')]
        (snd (EmailsClient_constructor 7 empty_store)) =
      Inr \<lparr>client_of = [0 \<mapsto> 7], next_addr = 1, world = 2\<rparr>"
    by (simp add: retrieveEmail_obj_def deleteEmail_obj_def EmailsClient_constructor_def
        empty_store_def counting_api_def counted_def Let_def)
  show ?thesis
    using h r resource_clients_own_no_state [of 7
        "snd (EmailsClient_constructor 7 empty_store)" counting_api 0
        "RetrieveEmail ''a'' ''b''"
        "[(0, RetrieveEmail ''a'' ''b''), (0, DeleteEmail ''a'')]"
        "\<lparr>client_of = [0 \<mapsto> 7], next_addr = 1, world = 2\<rparr>"]
    by simp
qed

text \<open>
  Claim C10. The methods that take an identifier put it into the path as it is:
  \<open>retrieveEmail\<close> calls \<open>get\<close> on the concatenation of \<open>/api/v1/Emails/\<close> and \<open>id\<close>,
  and likewise \<open>retrieveEmailLogo\<close> and \<open>retrieveFieldDefinition\<close>, for every string. An
  identifier that contains \<open>/\<close> reaches another route: with the id \<open>1/logo/2\<close>,
  \<open>retrieveEmail\<close> requests the path that \<open>retrieveEmailLogo\<close> builds for the email
  \<open>1\<close> and the nonce \<open>2\<close>.
\<close>

theorem paths_are_raw_interpolation:
  "call_path (retrieveEmail (EmailsClient_new probe) i inc) = ''/api/v1/Emails/'' @ i
   \<and> call_path (retrieveEmailLogo (EmailsClient_new probe) e n) =
       ''/api/v1/Emails/'' @ e @ ''/logo/'' @ n
   \<and> call_path (retrieveFieldDefinition (CustomFieldDefinitionsClient_new probe) i inc) =
       ''/api/v1/CustomFieldDefinitions/'' @ i
   \<and> retrieveEmail (EmailsClient_new c) i inc =
       get c (''/api/v1/Emails/'' @ i) (Some \<lparr>params = [(''include'', JStr inc)]\<rparr>)
   \<and> CHR ''/'' \<in> set ''1/logo/2''
   \<and> retrieveEmail (EmailsClient_new c) ''1/logo/2'' inc =
       get c (call_path (retrieveEmailLogo (EmailsClient_new probe) ''1'' ''2''))
         (Some \<lparr>params = [(''include'', JStr inc)]\<rparr>)
   \<and> call_path (retrieveEmail (EmailsClient_new probe) ''1/logo/2'' inc) =
       call_path (retrieveEmailLogo (EmailsClient_new probe) ''1'' ''2'')"
  by (simp add: retrieveEmail_def retrieveEmailLogo_def retrieveFieldDefinition_def new_defs
      probe_def)

end
